theory Spec2Isabelle
  imports Main "HOL-Library.Word"
begin

unbundle bit_operations_syntax

section \<open>Data model\<close>

text \<open>
  The kernel's integers are machine integers. \<open>uint64_t\<close>, \<open>size_t\<close> and pointers
  are 64-bit words whose arithmetic wraps; a C \<open>int\<close> is a 32-bit word read in two's
  complement (\<open>sint\<close>, \<open><s\<close>). A null pointer is the word 0, or \<open>None\<close> where the
  model keeps the object a pointer refers to.
\<close>

type_synonym u64 = "64 word"
type_synonym u8 = "8 word"
type_synonym cint = "32 word"

datatype procstate = UNUSED | EMBRYO | SLEEPING | RUNNABLE | RUNNING | ZOMBIE

text \<open>
  The ways a kernel path stops without returning to its caller: \<open>panic(msg)\<close> (the
  message without its leading tab), a load
  through a null pointer, and a load that leaves the object the pointer was derived from
  (the value it yields is not determined by the state modelled here).
\<close>

datatype fault = Panic string | Null_deref | Wild_read

text \<open>
  The trap frame, with the fields \<open>trapframe_dump\<close> prints. \<open>xregs f k\<close> is the
  general register \<open>xk\<close>, for \<open>k\<close> from 0 to 30; the registers lie next to each other
  in this order, so that \<open>&tf->x1 + n\<close> is the address of \<open>x(1+n)\<close> as long as
  that register exists.
\<close>

record trapframe =
  sp_el0 :: u64
  spsr_el1 :: u64
  elr_el1 :: u64
  xregs :: "nat \<Rightarrow> u64"

text \<open>
  The saved kernel context. The model keeps its link register, the only register the core
  writes by name; the others are zero after \<open>proc_alloc\<close>.
\<close>

datatype codeaddr = Forkret | Code_addr u64

record kcontext =
  x30 :: codeaddr

datatype chan = Chan_proc nat | Chan_addr u64

text \<open>
  A process slot. \<open>parent\<close> and the entries of \<open>ofile\<close> are pointers into the process
  table and the file table, kept as indices; \<open>tf\<close> and \<open>ctx\<close> (the field
  \<open>context\<close>) point into the kernel stack, and the model keeps what they point to.
  The spinlock of the slot is followed in the event trace below.
\<close>

record proc =
  state :: procstate
  pid :: cint
  parent :: "nat option"
  chan :: "chan option"
  killed :: cint
  xstate :: cint
  sz :: u64
  pgdir :: u64
  kstack :: u64
  tf :: "trapframe option"
  ctx :: "kcontext option"
  ofile :: "nat option list"
  cwd :: u64
  name :: string

record kfile =
  ref :: cint

datatype lockid = Pid_lock | Wait_lock | Ftable_lock | Proc_lock nat

text \<open>
  What the core does to its collaborators is recorded as a trace: lock operations,
  console output (the format string and its numeric arguments), calls into the page
  allocator, the VM module and the file system, and the entry into \<open>proc_free\<close>.
\<close>

datatype event =
    Acquire lockid
  | Release lockid
  | Cprintf string "u64 list"
  | Kfree u64
  | Vm_free u64 nat
  | Uvm_switch nat
  | Idup u64
  | Enter_proc_free nat

text \<open>
  The kernel state seen by one CPU: the process table (\<open>NPROC\<close> is its length), the
  slot \<open>thisproc()\<close> returns, the PID counter, the file table, the memory of the
  current process as the kernel addresses it, and the trace.
\<close>

record kstate =
  ptable :: "proc list"
  cur :: nat
  nextpid :: cint
  ftable :: "kfile list"
  umem :: "u64 \<Rightarrow> u8"
  trace :: "event list"

definition thisproc :: "kstate \<Rightarrow> proc" where
  "thisproc s = ptable s ! cur s"

definition emit :: "event \<Rightarrow> kstate \<Rightarrow> kstate" where
  "emit e s = s\<lparr>trace := trace s @ [e]\<rparr>"

definition acquire :: "lockid \<Rightarrow> kstate \<Rightarrow> kstate" where
  "acquire l s = emit (Acquire l) s"

definition release :: "lockid \<Rightarrow> kstate \<Rightarrow> kstate" where
  "release l s = emit (Release l) s"

definition cprintf :: "string \<Rightarrow> u64 list \<Rightarrow> kstate \<Rightarrow> kstate" where
  "cprintf fmt args s = emit (Cprintf fmt args) s"

text \<open>A lock is held after a trace when its last operation in the trace is an acquire.\<close>

definition holding :: "event list \<Rightarrow> lockid \<Rightarrow> bool" where
  "holding t l =
     foldl (\<lambda>held e. if e = Acquire l then True else if e = Release l then False else held)
       False t"

definition upd_proc :: "nat \<Rightarrow> (proc \<Rightarrow> proc) \<Rightarrow> kstate \<Rightarrow> kstate" where
  "upd_proc i f s = s\<lparr>ptable := (ptable s)[i := f (ptable s ! i)]\<rparr>"

section \<open>Fetching system call arguments (syscall.c)\<close>

text \<open>The 8-byte load \<open>*(int64_t*)addr\<close>, little-endian.\<close>

definition read64 :: "(u64 \<Rightarrow> u8) \<Rightarrow> u64 \<Rightarrow> u64" where
  "read64 m a =
     ucast (m a) OR push_bit 8 (ucast (m (a + 1))) OR push_bit 16 (ucast (m (a + 2)))
     OR push_bit 24 (ucast (m (a + 3))) OR push_bit 32 (ucast (m (a + 4)))
     OR push_bit 40 (ucast (m (a + 5))) OR push_bit 48 (ucast (m (a + 6)))
     OR push_bit 56 (ucast (m (a + 7)))"

text \<open>
  \<open>fetchint addr ip s\<close> is the pair of the return value and the contents of \<open>*ip\<close>
  after the call, \<open>ip\<close> being its contents before.
\<close>

definition fetchint :: "u64 \<Rightarrow> u64 \<Rightarrow> kstate \<Rightarrow> cint \<times> u64" where
  "fetchint addr ip s =
     (let p = thisproc s in
      if addr \<ge> sz p \<or> addr + 8 > sz p then (- 1, ip)
      else (0, read64 (umem s) addr))"

text \<open>The scan of \<open>fetchstr\<close>: \<open>for (s = *pp; s < ep; ++s)\<close>.\<close>

function strscan :: "(u64 \<Rightarrow> u8) \<Rightarrow> u64 \<Rightarrow> u64 \<Rightarrow> u64 \<Rightarrow> cint" where
  "strscan m pp ep s =
     (if s < ep then (if m s = 0 then ucast (s - pp) else strscan m pp ep (s + 1))
      else - 1)"
  by pat_completeness auto
termination
proof (relation "measure (\<lambda>(m, pp, ep, s). unat ep - unat s)")
  show "wf (measure (\<lambda>(m, pp, ep, s). unat ep - unat s))" by simp
next
  fix m :: "u64 \<Rightarrow> u8" and pp ep s :: u64
  assume lt: "s < ep"
  then have "unat s < unat ep" by (simp add: word_less_nat_alt)
  moreover have "unat ep < 2 ^ 64" using unsigned_less [of ep] by simp
  ultimately have "unat (s + 1) = unat s + 1"
    by (simp add: unat_word_ariths)
  with \<open>unat s < unat ep\<close>
  show "((m, pp, ep, s + 1), (m, pp, ep, s)) \<in> measure (\<lambda>(m, pp, ep, s). unat ep - unat s)"
    by simp
qed

definition fetchstr :: "u64 \<Rightarrow> u64 \<Rightarrow> kstate \<Rightarrow> cint \<times> u64" where
  "fetchstr addr pp s =
     (let p = thisproc s in
      if addr \<ge> sz p then (- 1, pp)
      else (strscan (umem s) addr (sz p) addr, addr))"

text \<open>
  \<open>argint\<close>: the comparison \<open>n > 3\<close> is on a signed \<open>int\<close>; the load is from
  \<open>&p->tf->x1 + n\<close>, the register \<open>x(1+n)\<close> where there is one.
\<close>

definition argint :: "cint \<Rightarrow> u64 \<Rightarrow> kstate \<Rightarrow> fault + (cint \<times> u64)" where
  "argint n ip s =
     (if 3 <s n then Inl (Panic ''argint: too many system call parameters.\<newline>'')
      else (case tf (thisproc s) of
              None \<Rightarrow> Inl Null_deref
            | Some f \<Rightarrow>
                (let k = 1 + sint n in
                 if 0 \<le> k \<and> k \<le> 30 then Inr (0, xregs f (nat k)) else Inl Wild_read)))"

definition argstr :: "cint \<Rightarrow> u64 \<Rightarrow> kstate \<Rightarrow> fault + (cint \<times> u64 \<times> kstate)" where
  "argstr n pp s =
     (case argint n 0 s of
        Inl e \<Rightarrow> Inl e
      | Inr (r, addr) \<Rightarrow>
          if r <s 0 then Inr (- 1, pp, s)
          else (let s1 = cprintf ''argstr: n=%d addr=%lld\<newline>'' [scast n, addr] s;
                    (r', pp') = fetchstr addr pp s1
                in Inr (r', pp', s1)))"

section \<open>System call dispatch (syscall.c)\<close>

text \<open>The loop \<open>while (1);\<close>: it has no value.\<close>

partial_function (option) while_true :: "unit \<Rightarrow> unit option" where
  "while_true u = while_true u"

text \<open>
  A handler of the dispatch table runs on the kernel state and either returns a value or
  does not return to the dispatcher (\<open>None\<close>). The table \<open>syscalls\<close> is a parameter:
  its length is \<open>ARRAY_SIZE(syscalls)\<close>, a null entry is \<open>None\<close>.
  The frame \<open>tf\<close> points to is the one the slot's \<open>tf\<close> field is set to on entry, so
  \<open>tf->x0 = ...\<close> writes there. The result is the state reached and the value
  returned, \<open>None\<close> when \<open>syscall1\<close> does not return.
\<close>

type_synonym handler = "kstate \<Rightarrow> kstate \<times> u64 option"

definition set_x0 :: "u64 \<Rightarrow> proc \<Rightarrow> proc" where
  "set_x0 v p = p\<lparr>tf := map_option (\<lambda>g. g\<lparr>xregs := (xregs g)(0 := v)\<rparr>) (tf p)\<rparr>"

definition syscall1 :: "handler option list \<Rightarrow> trapframe \<Rightarrow> kstate \<Rightarrow> kstate \<times> cint option" where
  "syscall1 syscalls f s =
     (let i = cur s;
          s1 = upd_proc i (\<lambda>p. p\<lparr>tf := Some f\<rparr>) s;
          sysno = xregs f 8
      in if 0 \<le> sysno \<and> unat sysno < length syscalls \<and> syscalls ! unat sysno \<noteq> None then
           (let s2 = cprintf ''syscall: syscall %d from proc %d\<newline>''
                       [sysno, scast (pid (ptable s1 ! i))] s1
            in case the (syscalls ! unat sysno) s2 of
                 (s3, None) \<Rightarrow> (s3, None)
               | (s3, Some r) \<Rightarrow> (upd_proc i (set_x0 r) s3, Some (ucast r)))
         else
           (let s2 = cprintf ''syscall: unknown syscall %d from proc %d\<newline>''
                       [sysno, scast (pid (ptable s1 ! i))] s1
            in (s2, Option.bind (while_true ()) (\<lambda>_. Some (- 1)))))"

section \<open>The process table (proc.c)\<close>

definition pid_next :: "kstate \<Rightarrow> cint \<times> kstate" where
  "pid_next s =
     (let s1 = acquire Pid_lock s;
          pid = nextpid s1;
          s2 = s1\<lparr>nextpid := nextpid s1 + 1\<rparr>;
          s3 = release Pid_lock s2
      in (pid, s3))"

text \<open>
  \<open>proc_free\<close> on slot \<open>i\<close>, statement by statement. \<open>kfree\<close> and \<open>vm_free\<close> belong
  to other modules and appear in the trace.
\<close>

definition proc_free :: "nat \<Rightarrow> kstate \<Rightarrow> kstate" where
  "proc_free i s =
     (let s0 = emit (Enter_proc_free i) s;
          s1 = upd_proc i (\<lambda>p. p\<lparr>chan := None, killed := 0, xstate := 0, pid := 0,
                                  parent := None\<rparr>) s0;
          s2 = (if kstack (ptable s1 ! i) \<noteq> 0 then emit (Kfree (kstack (ptable s1 ! i))) s1
                else s1);
          s3 = upd_proc i (\<lambda>p. p\<lparr>kstack := 0, sz := 0\<rparr>) s2;
          s4 = (if pgdir (ptable s3 ! i) \<noteq> 0 then emit (Vm_free (pgdir (ptable s3 ! i)) 4) s3
                else s3)
      in upd_proc i (\<lambda>p. p\<lparr>pgdir := 0, tf := None, name := (name p)[0 := CHR 0x00],
                              state := UNUSED\<rparr>) s4)"

text \<open>
  \<open>proc_alloc\<close>: the scan over the slots. \<open>page\<close> is what \<open>kalloc()\<close> returns
  (0 when it fails) and \<open>fresh\<close> the contents of that page where the trap frame is
  carved. The result is the slot found (\<open>None\<close> for \<open>NULL\<close>) and the state.
\<close>

fun proc_alloc_scan :: "u64 \<Rightarrow> trapframe \<Rightarrow> nat list \<Rightarrow> kstate \<Rightarrow> nat option \<times> kstate" where
  "proc_alloc_scan page fresh [] s = (None, s)"
| "proc_alloc_scan page fresh (i # slots) s =
     (let s1 = acquire (Proc_lock i) s in
      if state (ptable s1 ! i) \<noteq> UNUSED then
        proc_alloc_scan page fresh slots (release (Proc_lock i) s1)
      else
        (let (new_pid, s2) = pid_next s1;
             s3 = upd_proc i (\<lambda>p. p\<lparr>pid := new_pid\<rparr>) s2;
             s4 = upd_proc i (\<lambda>p. p\<lparr>kstack := page\<rparr>) s3
         in if page = 0 then (None, release (Proc_lock i) (proc_free i s4))
            else
              (let s5 = upd_proc i (\<lambda>p. p\<lparr>tf := Some fresh\<rparr>) s4;
                   s6 = upd_proc i (\<lambda>p. p\<lparr>ctx := Some \<lparr>x30 = Forkret\<rparr>\<rparr>) s5;
                   s7 = upd_proc i (\<lambda>p. p\<lparr>state := EMBRYO\<rparr>) s6;
                   s8 = cprintf ''proc_alloc: proc %d success.\<newline>''
                          [scast (pid (ptable s7 ! i))] s7
               in (Some i, s8))))"

definition proc_alloc :: "u64 \<Rightarrow> trapframe \<Rightarrow> kstate \<Rightarrow> nat option \<times> kstate" where
  "proc_alloc page fresh s = proc_alloc_scan page fresh [0..<length (ptable s)] s"

text \<open>
  \<open>growproc\<close>: \<open>uvm_alloc\<close> and \<open>uvm_dealloc\<close> of the VM module are parameters
  (page table, old size, new size; 0 on failure). \<open>sz + n\<close> adds the \<open>int\<close>
  sign-extended to 64 bits.
\<close>

definition growproc ::
  "(u64 \<Rightarrow> u64 \<Rightarrow> u64 \<Rightarrow> u64) \<Rightarrow> (u64 \<Rightarrow> u64 \<Rightarrow> u64 \<Rightarrow> u64) \<Rightarrow> cint \<Rightarrow> kstate \<Rightarrow> cint \<times> kstate" where
  "growproc uvm_alloc uvm_dealloc n s =
     (let i = cur s; p = ptable s ! i; sz0 = sz p;
          done = (\<lambda>sz1. (0, emit (Uvm_switch i) (upd_proc i (\<lambda>p. p\<lparr>sz := sz1\<rparr>) s)))
      in if 0 <s n then
           (let sz1 = uvm_alloc (pgdir p) sz0 (sz0 + scast n) in
            if sz1 = 0 then (- 1, s) else done sz1)
         else if n <s 0 then
           (let sz1 = uvm_dealloc (pgdir p) sz0 (sz0 + scast n) in
            if sz1 = 0 then (- 1, s) else done sz1)
         else done sz0)"

section \<open>fork and wait (proc.c, file.c)\<close>

text \<open>
  \<open>file_dup\<close> on the file table entry \<open>f\<close>; it returns its argument. A pointer that is
  not one of the table's entries is outside what the state determines.
\<close>

definition file_dup :: "nat \<Rightarrow> kstate \<Rightarrow> fault + kstate" where
  "file_dup f s =
     (let s1 = acquire Ftable_lock s in
      if f \<ge> length (ftable s1) then Inl Wild_read
      else if ref (ftable s1 ! f) <s 1 then Inl (Panic ''file_dup: invalid file.\<newline>'')
      else Inr (release Ftable_lock
                  (s1\<lparr>ftable := (ftable s1)[f := (ftable s1 ! f)\<lparr>ref := ref (ftable s1 ! f) + 1\<rparr>]\<rparr>)))"

text \<open>
  \<open>strncpy\<close> of string.h, as the bytes written to \<open>dst\<close>: the source pointer stops
  moving at the first NUL, which pads the rest. With \<open>size\<close> the length of the source
  array the source is not read past its end.
\<close>

fun strncpy :: "string \<Rightarrow> nat \<Rightarrow> string" where
  "strncpy src 0 = []"
| "strncpy [] (Suc n) = CHR 0x00 # strncpy [] n"
| "strncpy (c # cs) (Suc n) =
     c # (if c \<noteq> CHR 0x00 then strncpy cs n else strncpy (c # cs) n)"

text \<open>The loop of \<open>fork\<close> over the file descriptors; \<open>c\<close> is the child's slot.\<close>

fun fork_files :: "nat \<Rightarrow> nat list \<Rightarrow> kstate \<Rightarrow> fault + kstate" where
  "fork_files c [] s = Inr s"
| "fork_files c (i # fds) s =
     (case ofile (thisproc s) ! i of
        None \<Rightarrow> fork_files c fds s
      | Some f \<Rightarrow>
          (case file_dup f s of
             Inl e \<Rightarrow> Inl e
           | Inr s1 \<Rightarrow>
               fork_files c fds (upd_proc c (\<lambda>np. np\<lparr>ofile := (ofile np)[i := Some f]\<rparr>) s1)))"

text \<open>
  \<open>fork\<close>. \<open>page\<close> and \<open>fresh\<close> are passed to \<open>proc_alloc\<close>; \<open>uvm_copy\<close> of the VM
  module is a parameter (parent's page table, child's page table, size; negative on
  failure). \<open>NOFILE\<close> is the length of \<open>ofile\<close>, \<open>sizeof(p->name)\<close> the length of
  \<open>name\<close>. \<open>idup\<close> returns its argument and appears in the trace.
\<close>

definition fork ::
  "u64 \<Rightarrow> trapframe \<Rightarrow> (u64 \<Rightarrow> u64 \<Rightarrow> u64 \<Rightarrow> cint) \<Rightarrow> kstate \<Rightarrow> fault + (cint \<times> kstate)" where
  "fork page fresh uvm_copy s =
     (case proc_alloc page fresh s of
        (None, s1) \<Rightarrow> Inr (- 1, s1)
      | (Some c, s1) \<Rightarrow>
          if uvm_copy (pgdir (thisproc s1)) (pgdir (ptable s1 ! c)) (sz (thisproc s1)) <s 0 then
            Inr (- 1, release (Proc_lock c) (proc_free c s1))
          else
            (let s2 = upd_proc c (\<lambda>np. np\<lparr>sz := sz (thisproc s1)\<rparr>) s1 in
             case (tf (ptable s2 ! c), tf (thisproc s2)) of
               (None, _) \<Rightarrow> Inl Null_deref
             | (_, None) \<Rightarrow> Inl Null_deref
             | (Some _, Some f) \<Rightarrow>
                 (let s3 = upd_proc c (\<lambda>np. np\<lparr>tf := Some f\<rparr>) s2;
                      s4 = upd_proc c (set_x0 0) s3
                  in case fork_files c [0..<length (ofile (thisproc s4))] s4 of
                       Inl e \<Rightarrow> Inl e
                     | Inr s5 \<Rightarrow>
                         (let s6 = emit (Idup (cwd (thisproc s5))) s5;
                              s7 = upd_proc c (\<lambda>np. np\<lparr>cwd := cwd (thisproc s6)\<rparr>) s6;
                              s8 = upd_proc c (\<lambda>np. np\<lparr>name := strncpy (name (thisproc s7))
                                                         (length (name (thisproc s7)))\<rparr>) s7;
                              child_pid = pid (ptable s8 ! c);
                              s9 = release (Proc_lock c) s8;
                              s10 = acquire Wait_lock s9;
                              s11 = upd_proc c (\<lambda>np. np\<lparr>parent := Some (cur s10)\<rparr>) s10;
                              s12 = release Wait_lock s11;
                              s13 = acquire (Proc_lock c) s12;
                              s14 = upd_proc c (\<lambda>np. np\<lparr>state := RUNNABLE\<rparr>) s13;
                              s15 = release (Proc_lock c) s14
                          in Inr (child_pid, s15)))))"

text \<open>
  \<open>sched\<close> and \<open>sleep\<close>. What happens between the switch to the scheduler and the
  switch back is the parameter \<open>swtch\<close>: the state the process finds when it runs again.
\<close>

definition sched :: "(kstate \<Rightarrow> kstate) \<Rightarrow> kstate \<Rightarrow> fault + kstate" where
  "sched swtch s =
     (if \<not> holding (trace s) (Proc_lock (cur s)) then
        Inl (Panic ''sched: process not locked.\<newline>'')
      else if state (thisproc s) = RUNNING then Inl (Panic ''sched: process running.\<newline>'')
      else Inr (swtch s))"

definition sleep :: "(kstate \<Rightarrow> kstate) \<Rightarrow> chan \<Rightarrow> lockid \<Rightarrow> kstate \<Rightarrow> fault + kstate" where
  "sleep swtch ch lk s =
     (let i = cur s;
          s1 = acquire (Proc_lock i) s;
          s2 = release lk s1;
          s3 = upd_proc i (\<lambda>p. p\<lparr>chan := Some ch\<rparr>) s2;
          s4 = upd_proc i (\<lambda>p. p\<lparr>state := SLEEPING\<rparr>) s3
      in case sched swtch s4 of
           Inl e \<Rightarrow> Inl e
         | Inr s5 \<Rightarrow>
             Inr (acquire lk (release (Proc_lock i) (upd_proc i (\<lambda>p. p\<lparr>chan := None\<rparr>) s5))))"

text \<open>
  The scan of \<open>wait\<close> over the table, for the process in slot \<open>p\<close>: either a zombie
  child is found, freed and its PID returned (\<open>Inl\<close>), or the scan ends with
  \<open>havekids\<close> (\<open>Inr\<close>).
\<close>

fun wait_scan :: "nat \<Rightarrow> nat list \<Rightarrow> bool \<Rightarrow> kstate \<Rightarrow> (cint \<times> kstate) + bool" where
  "wait_scan p [] havekids s = Inr havekids"
| "wait_scan p (i # slots) havekids s =
     (if parent (ptable s ! i) \<noteq> Some p then wait_scan p slots havekids s
      else if state (ptable s ! i) = ZOMBIE then
        (let child_pid = pid (ptable s ! i);
             s1 = proc_free i s;
             s2 = release Wait_lock s1
         in Inl (child_pid, s2))
      else wait_scan p slots True s)"

partial_function (option) wait_loop ::
  "(kstate \<Rightarrow> kstate) \<Rightarrow> nat \<Rightarrow> kstate \<Rightarrow> (fault + cint \<times> kstate) option" where
  "wait_loop swtch p s =
     (case wait_scan p [0..<length (ptable s)] False s of
        Inl r \<Rightarrow> Some (Inr r)
      | Inr havekids \<Rightarrow>
          if \<not> havekids \<or> killed (ptable s ! p) \<noteq> 0 then Some (Inr (- 1, release Wait_lock s))
          else (case sleep swtch (Chan_proc p) Wait_lock s of
                  Inl e \<Rightarrow> Some (Inl e)
                | Inr s1 \<Rightarrow> wait_loop swtch p s1))"

definition wait :: "(kstate \<Rightarrow> kstate) \<Rightarrow> kstate \<Rightarrow> (fault + cint \<times> kstate) option" where
  "wait swtch s = wait_loop swtch (cur s) (acquire Wait_lock s)"

section \<open>System calls (sysproc.c)\<close>

text \<open>
  The argument loop of \<open>sys_exec\<close>. \<open>maxarg\<close> is \<open>MAXARG\<close>, the length of the local
  array \<open>argv\<close>; \<open>uarg\<close> is the local the pointer is fetched into. \<open>Inl\<close> is an early
  return, \<open>Inr\<close> the array after \<open>break\<close>.
\<close>

function exec_args ::
  "nat \<Rightarrow> u64 \<Rightarrow> nat \<Rightarrow> u64 list \<Rightarrow> u64 \<Rightarrow> kstate \<Rightarrow> (cint \<times> kstate) + (u64 list \<times> kstate)" where
  "exec_args maxarg uargv i argv uarg s =
     (if i \<ge> maxarg then Inl (- 1, cprintf ''sys_exec: too many arguments.\<newline>'' [] s)
      else
        (let (r, uarg1) = fetchint (uargv + 8 * of_nat i) uarg s in
         if r <s 0 then Inl (- 1, cprintf ''sys_exec: failed to fetch uarg.\<newline>'' [] s)
         else if uarg1 = 0 then Inr (argv[i := 0], s)
         else
           (let (r2, a) = fetchstr uarg1 (argv ! i) s in
            if r2 <s 0 then
              Inl (- 1, cprintf ''sys_exec: failed to fetch argument.\<newline>'' [] s)
            else
              exec_args maxarg uargv (i + 1) (argv[i := a]) uarg1
                (cprintf ''sys_exec: argv[%d] = '%s'\<newline>'' [of_nat i, a] s))))"
  by pat_completeness auto
termination
  by (relation "measure (\<lambda>(maxarg, uargv, i, argv, uarg, s). maxarg - i)") auto

text \<open>
  \<open>sys_exec\<close>; \<open>execve\<close> is a parameter (path, argument array, state). The locals
  \<open>path\<close>, \<open>uargv\<close> and \<open>uarg\<close> start at 0: no path reads them before they are set.
\<close>

definition sys_exec ::
  "nat \<Rightarrow> (u64 \<Rightarrow> u64 list \<Rightarrow> kstate \<Rightarrow> cint \<times> kstate) \<Rightarrow> kstate \<Rightarrow> fault + (cint \<times> kstate)" where
  "sys_exec maxarg execve s =
     (case argstr 0 0 s of
        Inl e \<Rightarrow> Inl e
      | Inr (r, path, s1) \<Rightarrow>
          if r <s 0 then Inr (- 1, cprintf ''sys_exec: invalid arguments.\<newline>'' [] s1)
          else
            (case argint 1 0 s1 of
               Inl e \<Rightarrow> Inl e
             | Inr (r1, uargv) \<Rightarrow>
                 if r1 <s 0 then
                   Inr (- 1, cprintf ''sys_exec: invalid arguments.\<newline>'' [] s1)
                 else
                   (let s2 = cprintf ''sys_exec: exec '%s' uargv %lld\<newline>'' [path, uargv] s1
                    in case exec_args maxarg uargv 0 (replicate maxarg 0) 0 s2 of
                         Inl early \<Rightarrow> Inr early
                       | Inr (argv, s3) \<Rightarrow> Inr (execve path argv s3))))"

text \<open>
  \<open>sys_brk\<close> returns a \<open>size_t\<close>, so its \<open>-1\<close> is the 64-bit word of all ones;
  \<open>growproc(n)\<close> receives the low 32 bits of \<open>n\<close>.
\<close>

definition sys_brk ::
  "(u64 \<Rightarrow> u64 \<Rightarrow> u64 \<Rightarrow> u64) \<Rightarrow> (u64 \<Rightarrow> u64 \<Rightarrow> u64 \<Rightarrow> u64) \<Rightarrow> kstate \<Rightarrow> fault + (u64 \<times> kstate)" where
  "sys_brk uvm_alloc uvm_dealloc s =
     (case argint 0 0 s of
        Inl e \<Rightarrow> Inl e
      | Inr (r, n) \<Rightarrow>
          if r <s 0 then Inr (- 1, s)
          else
            (let addr = sz (thisproc s) in
             case growproc uvm_alloc uvm_dealloc (ucast n) s of
               (r1, s1) \<Rightarrow> if r1 <s 0 then Inr (- 1, s1) else Inr (addr, s1)))"

section \<open>Runs and example states\<close>

text \<open>The PIDs returned by \<open>n\<close> calls of \<open>pid_next\<close> in a row, first call first.\<close>

fun pid_seq :: "nat \<Rightarrow> kstate \<Rightarrow> cint list" where
  "pid_seq 0 s = []"
| "pid_seq (Suc n) s = (case pid_next s of (p, s') \<Rightarrow> p # pid_seq n s')"

text \<open>
  Concrete inputs for the examples: a trap frame of zeros, a free slot with 16 file
  descriptors, memory of zeros, a VM module that always fails and one that always
  succeeds, and the state at boot (\<open>nextpid = 1\<close>, empty trace) over a given table.
\<close>

definition zero_frame :: trapframe where
  "zero_frame = \<lparr>sp_el0 = 0, spsr_el1 = 0, elr_el1 = 0, xregs = (\<lambda>k. 0)\<rparr>"

definition free_slot :: proc where
  "free_slot = \<lparr>state = UNUSED, pid = 0, parent = None, chan = None, killed = 0, xstate = 0,
     sz = 0, pgdir = 0, kstack = 0, tf = None, ctx = None, ofile = replicate 16 None, cwd = 0,
     name = replicate 16 (CHR 0x00)\<rparr>"

definition zero_mem :: "u64 \<Rightarrow> u8" where
  "zero_mem a = 0"

definition vm_fail :: "u64 \<Rightarrow> u64 \<Rightarrow> u64 \<Rightarrow> u64" where
  "vm_fail pg oldsz newsz = 0"

definition vm_ok :: "u64 \<Rightarrow> u64 \<Rightarrow> u64 \<Rightarrow> u64" where
  "vm_ok pg oldsz newsz = newsz"

definition boot_state :: "proc list \<Rightarrow> kstate" where
  "boot_state ps =
     \<lparr>ptable = ps, cur = 0, nextpid = 1, ftable = [], umem = zero_mem, trace = []\<rparr>"

text \<open>The trap frame of a \<open>brk\<close> call asking for 4096 more bytes.\<close>

definition brk_frame :: trapframe where
  "brk_frame = zero_frame\<lparr>xregs := (xregs zero_frame)(1 := 0x1000, 8 := 214)\<rparr>"

section \<open>Properties\<close>

subsection \<open>Dispatch of an unknown system call\<close>

lemma while_true_None: "while_true u = None"
proof (cases "while_true u")
  case None
  then show ?thesis .
next
  case (Some y)
  have False
    by (rule while_true.raw_induct [where P = "\<lambda>_ _. False", OF _ Some]) blast
  then show ?thesis ..
qed

lemma pid_after_set_tf:
  "pid ((ptable s)[i := (ptable s ! i)\<lparr>tf := x\<rparr>] ! i) = pid (ptable s ! i)"
  by (cases "i < length (ptable s)") (simp_all add: list_update_beyond)

text \<open>
  Claim C4. When the system call number in \<open>x8\<close> is outside the dispatch table or
  indexes a null entry, \<open>syscall1\<close> logs the "unknown syscall" message, with the number
  and the PID of the current process, and then does not return: its value is \<open>None\<close>,
  the value of the loop \<open>while (1);\<close>.
\<close>

theorem syscall1_unknown:
  assumes "\<not> (unat (xregs f 8) < length syscalls \<and> syscalls ! unat (xregs f 8) \<noteq> None)"
  shows "snd (syscall1 syscalls f s) = None \<and>
         trace (fst (syscall1 syscalls f s)) =
           trace s @ [Cprintf ''syscall: unknown syscall %d from proc %d\<newline>''
                       [xregs f 8, scast (pid (thisproc s))]]"
  using assms pid_after_set_tf [of s "cur s" "Some f"]
  by (auto simp: syscall1_def Let_def while_true_None cprintf_def emit_def upd_proc_def
      thisproc_def)

theorem syscall1_unknown_witness:
  "snd (syscall1 [None] zero_frame (boot_state [free_slot])) = None \<and>
   trace (fst (syscall1 [None] zero_frame (boot_state [free_slot]))) =
     [Cprintf ''syscall: unknown syscall %d from proc %d\<newline>'' [0, 0]]"
  using syscall1_unknown [of zero_frame "[None]" "boot_state [free_slot]"]
  by (simp add: zero_frame_def boot_state_def free_slot_def thisproc_def)

subsection \<open>Argument fetching\<close>

lemma argint_too_many:
  "3 < sint n \<Longrightarrow>
   argint n ip s = Inl (Panic ''argint: too many system call parameters.\<newline>'')"
  by (simp add: argint_def word_sless_alt)

lemma argint_in_range:
  "0 \<le> sint n \<Longrightarrow> sint n \<le> 3 \<Longrightarrow> tf (thisproc s) = Some f \<Longrightarrow>
   argint n ip s = Inr (0, xregs f (1 + nat (sint n)))"
  by (simp add: argint_def word_sless_alt Let_def nat_add_distrib)

lemma argint_0:
  "argint 0 ip s =
     (case tf (thisproc s) of None \<Rightarrow> Inl Null_deref | Some f \<Rightarrow> Inr (0, xregs f 1))"
  by (simp add: argint_def word_sless_alt split: option.split)

text \<open>
  Claim C5, at the index \<open>-1\<close>. The guard of \<open>argint\<close> is \<open>n > 3\<close> only, so a
  negative index passes it: \<open>argint(-1, ip)\<close> does not panic; for a process with a trap
  frame it stores \<open>x0\<close>, the word before \<open>x1\<close>, and returns 0.
\<close>

theorem argint_minus_one:
  "argint (- 1) ip s =
     (case tf (thisproc s) of None \<Rightarrow> Inl Null_deref | Some f \<Rightarrow> Inr (0, xregs f 0))"
  by (simp add: argint_def word_sless_alt split: option.split)

text \<open>
  Claim C6, as the code has it. \<open>fetchint\<close> fails, leaving \<open>*ip\<close> as it was, exactly
  when \<open>addr\<close> is not below \<open>sz\<close> or \<open>addr + 8\<close>, taken modulo \<open>2^64\<close>, is above
  \<open>sz\<close>; otherwise it returns 0 and \<open>*ip\<close> holds the 8 bytes at \<open>addr\<close>. The last
  8 bytes below \<open>sz\<close> can be read: \<open>addr + 8 = sz\<close> is accepted.
\<close>

theorem fetchint_bounds:
  "fetchint addr ip s =
     (if unat (sz (thisproc s)) \<le> unat addr \<or>
         unat (sz (thisproc s)) < (unat addr + 8) mod 2 ^ 64
      then (- 1, ip) else (0, read64 (umem s) addr))"
  by (simp add: fetchint_def Let_def word_le_nat_alt word_less_nat_alt unat_word_ariths)

text \<open>
  With \<open>sz = 16\<close> and \<open>addr = 8\<close>, \<open>addr + 8\<close> equals \<open>sz\<close> and \<open>fetchint\<close>
  returns 0 and overwrites \<open>*ip\<close> (7 before the call).
\<close>

theorem fetchint_end_counterexample:
  "unat (8 :: u64) + 8 = unat (sz (thisproc (boot_state [free_slot\<lparr>sz := 16\<rparr>]))) \<and>
   fetchint 8 7 (boot_state [free_slot\<lparr>sz := 16\<rparr>]) = (0, 0)"
  by (simp add: fetchint_def thisproc_def boot_state_def free_slot_def read64_def zero_mem_def)

subsection \<open>PID minting\<close>

lemma pid_next_simps [simp]:
  "fst (pid_next s) = nextpid s" "nextpid (snd (pid_next s)) = nextpid s + 1"
  by (simp_all add: pid_next_def Let_def acquire_def release_def emit_def)

lemma pid_seq_eq: "pid_seq n s = map (\<lambda>j. nextpid s + of_nat j) [0..<n]"
proof (induction n arbitrary: s)
  case 0
  then show ?case by simp
next
  case (Suc n)
  have "pid_seq (Suc n) s = nextpid s # pid_seq n (snd (pid_next s))"
    by (simp add: case_prod_unfold)
  also have "\<dots> = nextpid s # map (\<lambda>j. nextpid s + 1 + of_nat j) [0..<n]"
    by (simp add: Suc.IH)
  also have "\<dots> = map (\<lambda>j. nextpid s + of_nat j) [0..<Suc n]"
    by (simp add: upt_conv_Cons map_Suc_upt [symmetric] add.assoc del: upt_Suc)
  finally show ?case .
qed

lemma sint_small_pid:
  assumes "j < 2 ^ 31 - 1"
  shows "sint (1 + of_nat j :: cint) = 1 + int j"
proof -
  have "(1 + of_nat j :: cint) = of_nat (Suc j)" by simp
  moreover have "sint (of_nat (Suc j) :: cint) = int (Suc j)"
    using assms by (simp add: signed_of_nat signed_take_bit_int_eq_self del: of_nat_Suc)
  ultimately show ?thesis by simp
qed

text \<open>
  Claim C9, as the code has it. \<open>nextpid\<close> is a 32-bit \<open>int\<close>. From boot, as long as
  fewer than \<open>2^31\<close> PIDs have been minted, the k-th call of \<open>pid_next\<close> returns k:
  the PIDs are positive and each is greater than all PIDs returned before.
\<close>

theorem pid_seq_increasing:
  assumes "nextpid s = 1" and "n < 2 ^ 31"
  shows "map sint (pid_seq n s) = map int [1..<Suc n]"
proof -
  have "map sint (pid_seq n s) = map (\<lambda>j. sint (1 + of_nat j :: cint)) [0..<n]"
    by (simp add: pid_seq_eq assms(1) comp_def)
  also have "\<dots> = map (\<lambda>j. 1 + int j) [0..<n]"
    using assms(2) by (intro map_cong refl sint_small_pid) simp
  also have "\<dots> = map int [1..<Suc n]"
    by (simp add: map_Suc_upt [symmetric] del: upt_Suc)
  finally show ?thesis .
qed

theorem pid_seq_increasing_witness:
  "map sint (pid_seq 3 (boot_state [])) = [1, 2, 3]"
  using pid_seq_increasing [of "boot_state []" 3]
  by (simp add: boot_state_def upt_conv_Cons)

text \<open>
  The call number \<open>2^31 - 1\<close> from boot returns the largest \<open>int\<close>, and the next call
  returns the smallest one, a negative PID below every PID returned before.
\<close>

theorem pid_wraparound_counterexample:
  "sint (pid_seq (2 ^ 31) (boot_state []) ! (2 ^ 31 - 2)) = 2 ^ 31 - 1 \<and>
   sint (pid_seq (2 ^ 31) (boot_state []) ! (2 ^ 31 - 1)) = - (2 ^ 31)"
  by (simp add: pid_seq_eq boot_state_def)

subsection \<open>Freeing a slot\<close>

text \<open>
  Claim C2, as the code has it. On a slot of the table \<open>proc_free\<close> leaves the state
  \<open>UNUSED\<close>, hands a non-null \<open>kstack\<close> to \<open>kfree\<close> and a non-null \<open>pgdir\<close> to
  \<open>vm_free\<close> and clears both fields, and clears \<open>tf\<close>, \<open>sz\<close>, \<open>pid\<close>,
  \<open>parent\<close>, \<open>chan\<close>, \<open>killed\<close>, \<open>xstate\<close> and the first byte of the name. It does
  not write \<open>ofile\<close> or \<open>cwd\<close>: they are as before the call.
\<close>

theorem proc_free_clears:
  assumes "i < length (ptable s)"
  shows "state (ptable (proc_free i s) ! i) = UNUSED \<and>
         kstack (ptable (proc_free i s) ! i) = 0 \<and>
         pgdir (ptable (proc_free i s) ! i) = 0 \<and>
         tf (ptable (proc_free i s) ! i) = None \<and>
         sz (ptable (proc_free i s) ! i) = 0 \<and>
         pid (ptable (proc_free i s) ! i) = 0 \<and>
         parent (ptable (proc_free i s) ! i) = None \<and>
         chan (ptable (proc_free i s) ! i) = None \<and>
         killed (ptable (proc_free i s) ! i) = 0 \<and>
         xstate (ptable (proc_free i s) ! i) = 0 \<and>
         name (ptable (proc_free i s) ! i) = (name (ptable s ! i))[0 := CHR 0x00] \<and>
         ofile (ptable (proc_free i s) ! i) = ofile (ptable s ! i) \<and>
         cwd (ptable (proc_free i s) ! i) = cwd (ptable s ! i) \<and>
         trace (proc_free i s) =
           trace s @ [Enter_proc_free i]
             @ (if kstack (ptable s ! i) \<noteq> 0 then [Kfree (kstack (ptable s ! i))] else [])
             @ (if pgdir (ptable s ! i) \<noteq> 0 then [Vm_free (pgdir (ptable s ! i)) 4] else [])"
  using assms by (simp add: proc_free_def Let_def upd_proc_def emit_def)

theorem proc_free_clears_witness:
  "state (ptable (proc_free 0 (boot_state [free_slot\<lparr>state := ZOMBIE, pid := 2, pgdir := 0x2000,
       kstack := 0x1000, tf := Some zero_frame, ofile := [Some 0], cwd := 5\<rparr>])) ! 0) = UNUSED \<and>
   kstack (ptable (proc_free 0 (boot_state [free_slot\<lparr>state := ZOMBIE, pid := 2, pgdir := 0x2000,
       kstack := 0x1000, tf := Some zero_frame, ofile := [Some 0], cwd := 5\<rparr>])) ! 0) = 0 \<and>
   pgdir (ptable (proc_free 0 (boot_state [free_slot\<lparr>state := ZOMBIE, pid := 2, pgdir := 0x2000,
       kstack := 0x1000, tf := Some zero_frame, ofile := [Some 0], cwd := 5\<rparr>])) ! 0) = 0 \<and>
   trace (proc_free 0 (boot_state [free_slot\<lparr>state := ZOMBIE, pid := 2, pgdir := 0x2000,
       kstack := 0x1000, tf := Some zero_frame, ofile := [Some 0], cwd := 5\<rparr>])) =
     [Enter_proc_free 0, Kfree 0x1000, Vm_free 0x2000 4]"
  using proc_free_clears [of 0 "boot_state [free_slot\<lparr>state := ZOMBIE, pid := 2, pgdir := 0x2000,
       kstack := 0x1000, tf := Some zero_frame, ofile := [Some 0], cwd := 5\<rparr>]"]
  by (simp add: boot_state_def free_slot_def)

text \<open>
  A zombie slot whose descriptor 0 and \<open>cwd\<close> are still set keeps both through
  \<open>proc_free\<close>.
\<close>

theorem proc_free_counterexample:
  "ofile (ptable (proc_free 0 (boot_state [free_slot\<lparr>state := ZOMBIE, ofile := [Some 0], cwd := 5\<rparr>])) ! 0)
     = [Some 0] \<and>
   cwd (ptable (proc_free 0 (boot_state [free_slot\<lparr>state := ZOMBIE, ofile := [Some 0], cwd := 5\<rparr>])) ! 0)
     = 5"
  by (simp add: proc_free_def Let_def upd_proc_def emit_def boot_state_def free_slot_def)

subsection \<open>Growing the address space\<close>

text \<open>
  Claim C3. When \<open>n\<close> is positive and \<open>uvm_alloc\<close> returns 0, or \<open>n\<close> is negative
  and \<open>uvm_dealloc\<close> returns 0, \<open>growproc\<close> returns \<open>-1\<close> and the state, so the
  \<open>sz\<close> of the current process, is unchanged.
\<close>

theorem growproc_failure:
  assumes "(0 <s n \<and> uvm_alloc (pgdir (thisproc s)) (sz (thisproc s)) (sz (thisproc s) + scast n) = 0)
         \<or> (n <s 0 \<and> uvm_dealloc (pgdir (thisproc s)) (sz (thisproc s)) (sz (thisproc s) + scast n) = 0)"
  shows "growproc uvm_alloc uvm_dealloc n s = (- 1, s)"
  using assms by (auto simp: growproc_def Let_def thisproc_def word_sless_alt)

theorem growproc_failure_witness:
  "growproc vm_fail vm_ok 0x7FFFFFFF (boot_state [free_slot\<lparr>state := RUNNING, sz := 0x1000\<rparr>]) =
     (- 1, boot_state [free_slot\<lparr>state := RUNNING, sz := 0x1000\<rparr>]) \<and>
   growproc vm_ok vm_fail (- 1) (boot_state [free_slot\<lparr>state := RUNNING, sz := 0x1000\<rparr>]) =
     (- 1, boot_state [free_slot\<lparr>state := RUNNING, sz := 0x1000\<rparr>])"
  using growproc_failure [where n = "0x7FFFFFFF" and uvm_alloc = vm_fail and uvm_dealloc = vm_ok
      and s = "boot_state [free_slot\<lparr>state := RUNNING, sz := 0x1000\<rparr>]"]
    growproc_failure [where n = "- 1" and uvm_alloc = vm_ok and uvm_dealloc = vm_fail
      and s = "boot_state [free_slot\<lparr>state := RUNNING, sz := 0x1000\<rparr>]"]
  by (simp add: vm_fail_def word_sless_alt)

lemma growproc_success:
  assumes "\<not> ((0 <s n \<and> uvm_alloc (pgdir (thisproc s)) (sz (thisproc s)) (sz (thisproc s) + scast n) = 0)
         \<or> (n <s 0 \<and> uvm_dealloc (pgdir (thisproc s)) (sz (thisproc s)) (sz (thisproc s) + scast n) = 0))"
  shows "fst (growproc uvm_alloc uvm_dealloc n s) = 0"
  using assms by (auto simp: growproc_def Let_def thisproc_def word_sless_alt)

text \<open>
  Claim C10. For a process with a trap frame, \<open>sys_brk\<close> passes the low 32 bits of
  \<open>x1\<close> to \<open>growproc\<close>. When \<open>growproc\<close> fails, \<open>sys_brk\<close> returns \<open>-1\<close> and
  the state is unchanged; otherwise it returns the \<open>sz\<close> the process had before the
  call. Fetching argument 0 cannot fail (\<open>argint_0\<close>).
\<close>

theorem sys_brk_result:
  assumes "tf (thisproc s) = Some f" and "n = (ucast (xregs f 1) :: cint)"
  shows "if (0 <s n \<and> uvm_alloc (pgdir (thisproc s)) (sz (thisproc s)) (sz (thisproc s) + scast n) = 0)
          \<or> (n <s 0 \<and> uvm_dealloc (pgdir (thisproc s)) (sz (thisproc s)) (sz (thisproc s) + scast n) = 0)
         then sys_brk uvm_alloc uvm_dealloc s = Inr (- 1, s)
         else (\<exists>s'. sys_brk uvm_alloc uvm_dealloc s = Inr (sz (thisproc s), s'))"
  using assms
  by (auto simp: sys_brk_def argint_0 growproc_def Let_def thisproc_def word_sless_alt)

theorem sys_brk_result_witness:
  "sys_brk vm_fail vm_fail
     (boot_state [free_slot\<lparr>state := RUNNING, sz := 0x3000, tf := Some brk_frame\<rparr>]) =
     Inr (- 1, boot_state [free_slot\<lparr>state := RUNNING, sz := 0x3000, tf := Some brk_frame\<rparr>]) \<and>
   (\<exists>s'. sys_brk vm_ok vm_ok
     (boot_state [free_slot\<lparr>state := RUNNING, sz := 0x3000, tf := Some brk_frame\<rparr>]) =
     Inr (0x3000, s'))"
  using sys_brk_result [where f = brk_frame and n = "0x1000" and uvm_alloc = vm_fail
      and uvm_dealloc = vm_fail
      and s = "boot_state [free_slot\<lparr>state := RUNNING, sz := 0x3000, tf := Some brk_frame\<rparr>]"]
    sys_brk_result [where f = brk_frame and n = "0x1000" and uvm_alloc = vm_ok
      and uvm_dealloc = vm_ok
      and s = "boot_state [free_slot\<lparr>state := RUNNING, sz := 0x3000, tf := Some brk_frame\<rparr>]"]
  by (simp add: vm_fail_def vm_ok_def word_sless_alt boot_state_def free_slot_def thisproc_def
      brk_frame_def zero_frame_def)

end
